theory Spec2Isabelle
  imports Complex_Main
begin

section \<open>Data model\<close>

text \<open>
  The order back end keeps three MongoDB collections: products, orders and users.
  An ObjectId is modelled as a natural number (every value of the type is a well-formed
  id), a Date as a natural number of milliseconds. A collection is a finite map from ids
  to documents.

  A JavaScript Number is modelled as a rational and its arithmetic as exact. The program
  computes in binary doubles, which round: the comparisons, the copies of a price or a
  quantity and the validators are those of the program, the value of a product, a sum or
  a difference is the program's only where the double result is exact (as for the whole
  amounts of the scenarios below). Rounding keeps the sign of a difference, which is all
  that the stock guard and the stock validator read. No theorem of this theory states
  what an amount is in general.
\<close>

type_synonym oid = nat

text \<open>\<^verbatim>\<open>productSchema\<close>: the fields the order controller reads or writes.\<close>

record product =
  name :: string
  price :: rat
  stock :: rat
  sellerId :: oid
  isActive :: bool

text \<open>One element of \<^verbatim>\<open>req.body.items\<close>.\<close>

record item =
  productId :: oid
  quantity :: rat

text \<open>\<^verbatim>\<open>orderItemSchema\<close>: the line item stored in an order.\<close>

record orderItem =
  oi_productId :: oid
  oi_quantity :: rat
  oi_price :: rat

record address =
  street :: string
  city :: string
  state :: string
  country :: string
  zipCode :: string

text \<open>\<^verbatim>\<open>orderSchema\<close>. The document's \<^verbatim>\<open>_id\<close> is its key in the collection.\<close>

record order =
  userId :: oid
  items :: "orderItem list"
  totalAmount :: rat
  status :: string
  shippingAddress :: address
  paymentMethod :: string
  paymentStatus :: string
  createdAt :: nat
  updatedAt :: nat

text \<open>A stored user, as far as \<^verbatim>\<open>populate("userId", "name email")\<close> reads it.\<close>

record user =
  userName :: string
  email :: string

record db =
  products :: "oid \<rightharpoonup> product"
  orders :: "oid \<rightharpoonup> order"
  users :: "oid \<rightharpoonup> user"

text \<open>\<^verbatim>\<open>req.user\<close>, the authenticated requester set by the route middleware.\<close>

record actor =
  uid :: oid
  actorName :: string
  role :: string

text \<open>
  \<^verbatim>\<open>req.body\<close> of \<^verbatim>\<open>POST /api/orders\<close>. A field that the request leaves out is
  \<^verbatim>\<open>undefined\<close> in the handler: \<open>None\<close> here.
\<close>

record orderBody =
  reqItems :: "item list option"
  reqShippingAddress :: address
  reqPaymentMethod :: "string option"

text \<open>
  What a call takes from its surroundings: the ObjectId that the driver generates for the
  new order document, the reading of \<^verbatim>\<open>Date.now\<close> when the call begins to work on
  a document, and the later reading of \<^verbatim>\<open>Date.now()\<close> inside the pre-save hook.
\<close>

record env =
  newId :: oid
  now :: nat
  nowAtSave :: nat

section \<open>Errors, events and responses\<close>

datatype error =
  EmptyOrder
  | ProductUnavailable oid
  | InsufficientStock oid
  | ValidationError
  | DuplicateKey

text \<open>
  A socket.io room. The seller room is named by the template
  \<^verbatim>\<open>`seller-${x}`\<close>; \<open>SellerRoom None\<close> is the room named from an
  \<^verbatim>\<open>undefined\<close> value of \<^verbatim>\<open>x\<close>.
\<close>

datatype room = UserRoom oid | SellerRoom "oid option" | AdminRoom

datatype event =
  NewOrder oid rat string
  | OrderStatusUpdate oid string
  | AdminOrderUpdate oid string string

datatype body =
  Message string
  | Failure error
  | OrderDoc oid order
  | Undefined

datatype response = Http nat body | NoResponse

text \<open>The outcome of a handler: the database after it, the events emitted, the response.\<close>

record outcome =
  store :: db
  emitted :: "(room \<times> event) list"
  response :: response

section \<open>Schema validation\<close>

definition validStatuses :: "string list" where
  "validStatuses = [''pending'', ''processing'', ''shipped'', ''delivered'', ''cancelled'']"

definition paymentMethods :: "string list" where
  "paymentMethods = [''cod'', ''card'', ''upi'']"

definition paymentStatuses :: "string list" where
  "paymentStatuses = [''pending'', ''paid'', ''failed'']"

text \<open>\<^verbatim>\<open>orderItemSchema\<close>: quantity has \<^verbatim>\<open>min 1\<close>, price has \<^verbatim>\<open>min 0\<close>.\<close>

definition validOrderItem :: "orderItem \<Rightarrow> bool" where
  "validOrderItem it = (1 \<le> oi_quantity it \<and> 0 \<le> oi_price it)"

text \<open>\<^verbatim>\<open>orderSchema\<close>: the validators that run when an order document is saved.\<close>

definition validOrder :: "order \<Rightarrow> bool" where
  "validOrder ord =
     (list_all validOrderItem (items ord) \<and> 0 \<le> totalAmount ord
      \<and> status ord \<in> set validStatuses
      \<and> paymentMethod ord \<in> set paymentMethods
      \<and> paymentStatus ord \<in> set paymentStatuses)"

section \<open>createOrder\<close>

text \<open>\<^verbatim>\<open>!items || items.length === 0\<close> holds exactly when this list is empty.\<close>

definition itemsOf :: "orderBody \<Rightarrow> item list" where
  "itemsOf b = (case reqItems b of None \<Rightarrow> [] | Some its \<Rightarrow> its)"

text \<open>
  The loop over the items (lines 25 to 49), run inside the transaction: \<open>s\<close> is the
  database as the session sees it, with the session's own writes. A \<^verbatim>\<open>throw\<close> is
  \<open>Inl\<close>, with the session's view at that moment. \<^verbatim>\<open>product.save\<close> validates the
  modified path \<^verbatim>\<open>stock\<close> against \<^verbatim>\<open>min 0\<close> of the product schema.
\<close>

fun processItems ::
  "db \<Rightarrow> item list \<Rightarrow> rat \<Rightarrow> orderItem list \<Rightarrow> (error \<times> db) + (db \<times> rat \<times> orderItem list)" where
  "processItems s [] tot processed = Inr (s, tot, processed)"
| "processItems s (it # its) tot processed =
     (case products s (productId it) of
        None \<Rightarrow> Inl (ProductUnavailable (productId it), s)
      | Some p \<Rightarrow>
          if \<not> isActive p then Inl (ProductUnavailable (productId it), s)
          else if stock p < quantity it then Inl (InsufficientStock (productId it), s)
          else if stock p - quantity it < 0 then Inl (ValidationError, s)
          else processItems
                 (s\<lparr>products := (products s)(productId it \<mapsto> p\<lparr>stock := stock p - quantity it\<rparr>)\<rparr>)
                 its
                 (tot + price p * quantity it)
                 (processed @ [\<lparr>oi_productId = productId it, oi_quantity = quantity it,
                                 oi_price = price p\<rparr>]))"

text \<open>
  The document that \<^verbatim>\<open>Order.create\<close> builds (lines 52 to 64): \<^verbatim>\<open>status\<close> is not
  passed and takes the schema default, an \<^verbatim>\<open>undefined\<close> payment method takes the
  default \<^verbatim>\<open>"cod"\<close>, while line 60 compares the request's value with \<^verbatim>\<open>"cod"\<close>.
  Both dates default to \<^verbatim>\<open>Date.now\<close> when the document is built; the pre-save hook
  then overwrites \<^verbatim>\<open>updatedAt\<close> with its own reading of the clock.
\<close>

definition newOrder :: "env \<Rightarrow> actor \<Rightarrow> orderBody \<Rightarrow> rat \<Rightarrow> orderItem list \<Rightarrow> order" where
  "newOrder e u b tot processed =
     \<lparr>userId = uid u,
      items = processed,
      totalAmount = tot,
      status = ''pending'',
      shippingAddress = reqShippingAddress b,
      paymentMethod = (case reqPaymentMethod b of None \<Rightarrow> ''cod'' | Some m \<Rightarrow> m),
      paymentStatus = (if reqPaymentMethod b = Some ''cod'' then ''pending'' else ''paid''),
      createdAt = now e,
      updatedAt = nowAtSave e\<rparr>"

text \<open>
  \<^verbatim>\<open>Order.create([doc], {session})\<close>: validation, then the insert, which the unique
  index on \<^verbatim>\<open>_id\<close> refuses for an id already in the collection.
\<close>

definition Order_create :: "db \<Rightarrow> oid \<Rightarrow> order \<Rightarrow> error + db" where
  "Order_create s i ord =
     (if \<not> validOrder ord then Inl ValidationError
      else if orders s i \<noteq> None then Inl DuplicateKey
      else Inr (s\<lparr>orders := (orders s)(i \<mapsto> ord)\<rparr>))"

text \<open>
  The body of the \<^verbatim>\<open>try\<close> up to the commit (lines 13 to 64). \<open>Inl (e, s)\<close>: the error
  thrown and the session's view when it was thrown.
\<close>

definition createOrderTx ::
  "db \<Rightarrow> env \<Rightarrow> actor \<Rightarrow> orderBody \<Rightarrow> (error \<times> db) + (db \<times> rat \<times> orderItem list)" where
  "createOrderTx d e u b =
     (if itemsOf b = [] then Inl (EmptyOrder, d)
      else case processItems d (itemsOf b) 0 [] of
             Inl err \<Rightarrow> Inl err
           | Inr (s, tot, processed) \<Rightarrow>
               (case Order_create s (newId e) (newOrder e u b tot processed) of
                  Inl err \<Rightarrow> Inl (err, s)
                | Inr s' \<Rightarrow> Inr (s', tot, processed)))"

text \<open>
  \<^verbatim>\<open>processedItems[0].productId\<close> is \<^verbatim>\<open>product._id\<close>, an ObjectId, and an ObjectId
  has no property \<^verbatim>\<open>sellerId\<close>: reading it gives \<^verbatim>\<open>undefined\<close>.
\<close>

definition objectId_sellerId :: "oid \<Rightarrow> oid option" where
  "objectId_sellerId i = None"

text \<open>
  The handler. On a \<^verbatim>\<open>throw\<close> the transaction is aborted: the database stays as it
  was before the call and the answer is 400 with the error. Otherwise the session's view
  is committed, the event is emitted (lines 75 to 81) and the answer is 201 with
  \<^verbatim>\<open>populatedOrder[0]\<close>: \<^verbatim>\<open>findById\<close> gives one document, not an array, so that
  value is \<^verbatim>\<open>undefined\<close>. With no first processed item, line 76 would throw after the
  commit and no response would be sent.
\<close>

definition createOrder :: "db \<Rightarrow> env \<Rightarrow> actor \<Rightarrow> orderBody \<Rightarrow> outcome" where
  "createOrder d e u b =
     (case createOrderTx d e u b of
        Inl (err, s) \<Rightarrow> \<lparr>store = d, emitted = [], response = Http 400 (Failure err)\<rparr>
      | Inr (s', tot, processed) \<Rightarrow>
          (case processed of
             [] \<Rightarrow> \<lparr>store = s', emitted = [], response = NoResponse\<rparr>
           | first # _ \<Rightarrow>
               \<lparr>store = s',
                emitted = [(SellerRoom (objectId_sellerId (oi_productId first)),
                            NewOrder (newId e) tot (actorName u))],
                response = Http 201 Undefined\<rparr>))"

text \<open>A sequence of calls, each on the database the previous one left.\<close>

fun placeOrders :: "db \<Rightarrow> (env \<times> actor \<times> orderBody) list \<Rightarrow> db" where
  "placeOrders d [] = d"
| "placeOrders d ((e, u, b) # cs) = placeOrders (store (createOrder d e u b)) cs"

text \<open>Every stored product has a stock of at least zero.\<close>

definition stockNonNegative :: "db \<Rightarrow> bool" where
  "stockNonNegative d = (\<forall>i p. products d i = Some p \<longrightarrow> 0 \<le> stock p)"

text \<open>
  The stored line \<open>oi\<close> records the request line \<open>it\<close> with the price that the product
  has in the database \<open>d\<close>.
\<close>

abbreviation captured :: "db \<Rightarrow> item \<Rightarrow> orderItem \<Rightarrow> bool" where
  "captured d \<equiv> (\<lambda>it oi. oi_productId oi = productId it \<and> oi_quantity oi = quantity it
      \<and> map_option price (products d (productId it)) = Some (oi_price oi))"

section \<open>getOrderById\<close>


section \<open>updateOrderStatus\<close>

text \<open>
  \<^verbatim>\<open>findByIdAndUpdate(id, {status}, {new: true, runValidators: true})\<close> writes the one
  field; it is an update query, so the schema's pre-save hook does not run, and the handler
  never reads the clock of its environment \<open>e\<close>. The populated
  \<^verbatim>\<open>order.userId\<close> is read at line 201, after the update; \<^verbatim>\<open>null\<close> there throws
  and the \<^verbatim>\<open>catch\<close> answers with 500.
\<close>

definition updateOrderStatus :: "db \<Rightarrow> env \<Rightarrow> actor \<Rightarrow> oid \<Rightarrow> string \<Rightarrow> outcome" where
  "updateOrderStatus d e u i s =
     (if s \<notin> set validStatuses then
        \<lparr>store = d, emitted = [], response = Http 400 (Message ''Invalid status'')\<rparr>
      else case orders d i of
             None \<Rightarrow> \<lparr>store = d, emitted = [], response = Http 404 (Message ''Order not found'')\<rparr>
           | Some ord \<Rightarrow>
               (let ord' = ord\<lparr>status := s\<rparr>;
                    d' = d\<lparr>orders := (orders d)(i \<mapsto> ord')\<rparr>
                in case users d (userId ord) of
                     None \<Rightarrow> \<lparr>store = d', emitted = [],
                              response = Http 500 (Message ''Server error'')\<rparr>
                   | Some owner \<Rightarrow>
                       \<lparr>store = d',
                        emitted = (UserRoom (userId ord), OrderStatusUpdate i s)
                                  # (if role u = ''admin''
                                     then [(AdminRoom, AdminOrderUpdate i s (actorName u))]
                                     else []),
                        response = Http 200 (OrderDoc i ord')\<rparr>))"

section \<open>Scenarios\<close>

text \<open>
  The concrete data of the scenarios: product 1 of seller 7 with price 10 and stock 5,
  the customer 3, another customer 4, an admin 9, and a cart of one line for product 1.
\<close>

definition scenarioAddress :: address where
  "scenarioAddress =
     \<lparr>street = ''1 Main St'', city = ''Pune'', state = ''MH'', country = ''IN'',
      zipCode = ''411001''\<rparr>"

definition scenarioDb :: db where
  "scenarioDb =
     \<lparr>products = [1 \<mapsto> \<lparr>name = ''P1'', price = 10, stock = 5, sellerId = 7, isActive = True\<rparr>],
      orders = Map.empty,
      users = [3 \<mapsto> \<lparr>userName = ''Ann'', email = ''ann@example.org''\<rparr>]\<rparr>"

definition scenarioEnv :: env where
  "scenarioEnv = \<lparr>newId = 100, now = 1000, nowAtSave = 1000\<rparr>"

definition laterEnv :: env where
  "laterEnv = \<lparr>newId = 101, now = 2000, nowAtSave = 2000\<rparr>"

definition customer :: actor where
  "customer = \<lparr>uid = 3, actorName = ''Ann'', role = ''customer''\<rparr>"

definition otherCustomer :: actor where
  "otherCustomer = \<lparr>uid = 4, actorName = ''Bob'', role = ''customer''\<rparr>"

definition admin :: actor where
  "admin = \<lparr>uid = 9, actorName = ''Root'', role = ''admin''\<rparr>"

definition cart :: "rat \<Rightarrow> orderBody" where
  "cart q =
     \<lparr>reqItems = Some [\<lparr>productId = 1, quantity = q\<rparr>],
      reqShippingAddress = scenarioAddress,
      reqPaymentMethod = Some ''cod''\<rparr>"

text \<open>Two lines for product 1: the first can be reserved, the second cannot.\<close>

definition cartTwoLines :: orderBody where
  "cartTwoLines =
     \<lparr>reqItems = Some [\<lparr>productId = 1, quantity = 2\<rparr>, \<lparr>productId = 1, quantity = 5\<rparr>],
      reqShippingAddress = scenarioAddress,
      reqPaymentMethod = Some ''card''\<rparr>"

text \<open>The order that the first scenario stores under id 100.\<close>

definition scenarioOrder :: order where
  "scenarioOrder =
     \<lparr>userId = 3,
      items = [\<lparr>oi_productId = 1, oi_quantity = 2, oi_price = 10\<rparr>],
      totalAmount = 20,
      status = ''pending'',
      shippingAddress = scenarioAddress,
      paymentMethod = ''cod'',
      paymentStatus = ''pending'',
      createdAt = 1000,
      updatedAt = 1000\<rparr>"

text \<open>The database after the first scenario.\<close>

definition placedDb :: db where
  "placedDb =
     \<lparr>products = [1 \<mapsto> \<lparr>name = ''P1'', price = 10, stock = 3, sellerId = 7, isActive = True\<rparr>],
      orders = [100 \<mapsto> scenarioOrder],
      users = [3 \<mapsto> \<lparr>userName = ''Ann'', email = ''ann@example.org''\<rparr>]\<rparr>"

text \<open>The same database once the document of user 3 is gone from the users collection.\<close>

definition orphanedDb :: db where
  "orphanedDb = placedDb\<lparr>users := Map.empty\<rparr>"

text \<open>The cart of the first scenario, sent without a payment method.\<close>

definition cartNoMethod :: orderBody where
  "cartNoMethod =
     \<lparr>reqItems = Some [\<lparr>productId = 1, quantity = 2\<rparr>],
      reqShippingAddress = scenarioAddress,
      reqPaymentMethod = None\<rparr>"

section \<open>Evaluating the handlers\<close>

lemmas scenario_defs = scenarioAddress_def scenarioDb_def scenarioEnv_def laterEnv_def
  customer_def otherCustomer_def admin_def cart_def cartTwoLines_def scenarioOrder_def
  placedDb_def orphanedDb_def cartNoMethod_def

lemmas handler_defs = createOrder_def createOrderTx_def Order_create_def newOrder_def
  itemsOf_def validOrder_def validOrderItem_def validStatuses_def paymentMethods_def
  paymentStatuses_def objectId_sellerId_def

text \<open>
  The first scenario: a cart of 2 units of product 1 is placed, the stock goes from 5 to 3
  and the order of 20 is stored as pending.
\<close>

lemma scenario_placed:
  "createOrder scenarioDb scenarioEnv customer (cart 2) =
     \<lparr>store = placedDb,
      emitted = [(SellerRoom None, NewOrder 100 20 ''Ann'')],
      response = Http 201 Undefined\<rparr>"
  by (simp add: scenario_defs handler_defs)

text \<open>The second scenario: 6 units are more than the stock of 5.\<close>

lemma scenario_insufficient:
  "createOrder scenarioDb scenarioEnv customer (cart 6) =
     \<lparr>store = scenarioDb, emitted = [],
      response = Http 400 (Failure (InsufficientStock 1))\<rparr>"
  by (simp add: scenario_defs handler_defs)

text \<open>
  A cart of two lines whose second line fails: when the error is thrown the session has
  already written the first line's decrement (stock 3).
\<close>

lemma scenario_partial:
  "createOrderTx scenarioDb scenarioEnv customer cartTwoLines =
     Inl (InsufficientStock 1,
          scenarioDb\<lparr>products :=
            [1 \<mapsto> \<lparr>name = ''P1'', price = 10, stock = 3, sellerId = 7, isActive = True\<rparr>]\<rparr>)"
  by (simp add: scenario_defs handler_defs)

section \<open>The loop over the items\<close>

text \<open>One round of the loop that does not throw, as an equation.\<close>

lemma processItems_step:
  assumes "processItems s (it # its) tot acc = Inr r"
  obtains p where "products s (productId it) = Some p" "isActive p" "quantity it \<le> stock p"
    "processItems
       (s\<lparr>products := (products s)(productId it \<mapsto> p\<lparr>stock := stock p - quantity it\<rparr>)\<rparr>)
       its (tot + price p * quantity it)
       (acc @ [\<lparr>oi_productId = productId it, oi_quantity = quantity it, oi_price = price p\<rparr>])
     = Inr r"
  using assms by (auto split: option.splits if_splits)

text \<open>The loop writes nothing but the stock of products.\<close>

lemma processItems_keeps:
  "processItems s its tot acc = Inr (s', tot', acc') \<Longrightarrow>
     orders s' = orders s \<and> users s' = users s
     \<and> (\<forall>i. map_option price (products s' i) = map_option price (products s i))"
proof (induction its arbitrary: s tot acc)
  case Nil
  then show ?case by simp
next
  case (Cons it its)
  from Cons.prems show ?case
  proof (rule processItems_step)
    fix p
    assume "products s (productId it) = Some p"
      and "processItems
             (s\<lparr>products := (products s)(productId it \<mapsto> p\<lparr>stock := stock p - quantity it\<rparr>)\<rparr>)
             its (tot + price p * quantity it)
             (acc @ [\<lparr>oi_productId = productId it, oi_quantity = quantity it, oi_price = price p\<rparr>])
           = Inr (s', tot', acc')"
    from Cons.IH [OF this(2)] this(1) show ?thesis by auto
  qed
qed

text \<open>
  The loop appends one stored line per request line, in order, each with the price read
  from the product.
\<close>

lemma processItems_items:
  "processItems s its tot acc = Inr (s', tot', acc') \<Longrightarrow>
     \<exists>new. acc' = acc @ new \<and> list_all2 (captured s) its new"
proof (induction its arbitrary: s tot acc)
  case Nil
  then show ?case by simp
next
  case (Cons it its)
  from Cons.prems show ?case
  proof (rule processItems_step)
    fix p
    let ?s1 = "s\<lparr>products := (products s)(productId it \<mapsto> p\<lparr>stock := stock p - quantity it\<rparr>)\<rparr>"
    let ?oi = "\<lparr>oi_productId = productId it, oi_quantity = quantity it, oi_price = price p\<rparr>"
    assume p: "products s (productId it) = Some p"
      and run: "processItems ?s1 its (tot + price p * quantity it) (acc @ [?oi]) = Inr (s', tot', acc')"
    from Cons.IH [OF run] obtain new where new:
      "acc' = (acc @ [?oi]) @ new" "list_all2 (captured ?s1) its new"
      by blast
    have same: "captured ?s1 = captured s"
      using p by (auto simp: fun_eq_iff)
    have "captured s it ?oi" using p by simp
    with new same show ?thesis
      by (intro exI [of _ "?oi # new"]) simp
  qed
qed

text \<open>The loop keeps every stock at zero or more.\<close>

lemma processItems_stock:
  "processItems s its tot acc = Inr (s', tot', acc') \<Longrightarrow> stockNonNegative s
     \<Longrightarrow> stockNonNegative s'"
proof (induction its arbitrary: s tot acc)
  case Nil
  then show ?case by simp
next
  case (Cons it its)
  from Cons.prems(1) show ?case
  proof (rule processItems_step)
    fix p
    let ?s1 = "s\<lparr>products := (products s)(productId it \<mapsto> p\<lparr>stock := stock p - quantity it\<rparr>)\<rparr>"
    assume ge: "quantity it \<le> stock p"
      and run: "processItems ?s1 its (tot + price p * quantity it)
                  (acc @ [\<lparr>oi_productId = productId it, oi_quantity = quantity it,
                           oi_price = price p\<rparr>]) = Inr (s', tot', acc')"
    have "stockNonNegative ?s1"
      using Cons.prems(2) ge by (auto simp: stockNonNegative_def)
    with Cons.IH [OF run] show ?thesis .
  qed
qed

section \<open>The transaction of createOrder\<close>

text \<open>What a transaction that reaches the commit has done.\<close>

lemma createOrderTx_Inr:
  assumes "createOrderTx d e u b = Inr (s', tot, processed)"
  shows "itemsOf b \<noteq> []"
    and "list_all2 (captured d) (itemsOf b) processed"
    and "validOrder (newOrder e u b tot processed)"
    and "orders d (newId e) = None"
    and "orders s' = (orders d)(newId e \<mapsto> newOrder e u b tot processed)"
    and "stockNonNegative d \<Longrightarrow> stockNonNegative s'"
proof -
  from assms show ne: "itemsOf b \<noteq> []"
    by (auto simp: createOrderTx_def split: if_splits)
  from assms ne obtain s where
    run: "processItems d (itemsOf b) 0 [] = Inr (s, tot, processed)"
    and cr: "Order_create s (newId e) (newOrder e u b tot processed) = Inr s'"
    by (auto simp: createOrderTx_def split: sum.splits)
  from processItems_items [OF run]
  show "list_all2 (captured d) (itemsOf b) processed"
    by auto
  from cr show "validOrder (newOrder e u b tot processed)"
    by (auto simp: Order_create_def split: if_splits)
  from cr have s': "s' = s\<lparr>orders := (orders s)(newId e \<mapsto> newOrder e u b tot processed)\<rparr>"
    and free: "orders s (newId e) = None"
    by (auto simp: Order_create_def split: if_splits)
  from processItems_keeps [OF run] have same: "orders s = orders d" by simp
  from free same show "orders d (newId e) = None" by simp
  from s' same show "orders s' = (orders d)(newId e \<mapsto> newOrder e u b tot processed)"
    by simp
  show "stockNonNegative s'" if "stockNonNegative d"
    using processItems_stock [OF run that] s' by (simp add: stockNonNegative_def)
qed

text \<open>
  The handler has two outcomes only: the abort, with the database as before the call, and
  the commit, with a first processed item to name the room from.
\<close>

lemma createOrder_cases:
  obtains (aborted) err s where
      "createOrderTx d e u b = Inl (err, s)"
      "createOrder d e u b = \<lparr>store = d, emitted = [], response = Http 400 (Failure err)\<rparr>"
  | (committed) s' tot first rest where
      "createOrderTx d e u b = Inr (s', tot, first # rest)"
      "createOrder d e u b =
         \<lparr>store = s',
          emitted = [(SellerRoom (objectId_sellerId (oi_productId first)),
                      NewOrder (newId e) tot (actorName u))],
          response = Http 201 Undefined\<rparr>"
proof (cases "createOrderTx d e u b")
  case (Inl a)
  then show ?thesis
    by (cases a) (auto simp: createOrder_def intro: aborted)
next
  case (Inr r)
  then obtain s' tot processed where r: "createOrderTx d e u b = Inr (s', tot, processed)"
    by (cases r) auto
  from createOrderTx_Inr(1,2) [OF r] have "processed \<noteq> []"
    by (auto simp: list_all2_Nil2)
  then obtain first rest where "processed = first # rest"
    by (cases processed) auto
  with r show ?thesis
    by (auto simp: createOrder_def intro: committed)
qed

text \<open>A stored line with a quantity below 1 fails the validation of the order.\<close>

lemma captured_valid_quantity:
  "list_all2 (captured d) its processed \<Longrightarrow> list_all validOrderItem processed
     \<Longrightarrow> it \<in> set its \<Longrightarrow> 1 \<le> quantity it"
  by (induction its processed rule: list_all2_induct) (auto simp: validOrderItem_def)

section \<open>updateOrderStatus\<close>

text \<open>An accepted update writes the requested status and nothing else.\<close>

lemma updateOrderStatus_store:
  "s \<in> set validStatuses \<Longrightarrow> orders d i = Some ord \<Longrightarrow>
     store (updateOrderStatus d e u i s) = d\<lparr>orders := (orders d)(i \<mapsto> ord\<lparr>status := s\<rparr>)\<rparr>"
  by (simp add: updateOrderStatus_def Let_def split: option.splits)

lemma updateOrderStatus_rejected:
  "s \<notin> set validStatuses \<Longrightarrow>
     updateOrderStatus d e u i s
       = \<lparr>store = d, emitted = [], response = Http 400 (Message ''Invalid status'')\<rparr>"
  by (simp add: updateOrderStatus_def)

lemma updateOrderStatus_missing:
  "s \<in> set validStatuses \<Longrightarrow> orders d i = None \<Longrightarrow>
     updateOrderStatus d e u i s
       = \<lparr>store = d, emitted = [], response = Http 404 (Message ''Order not found'')\<rparr>"
  by (simp add: updateOrderStatus_def)

section \<open>Sequences of calls\<close>

text \<open>One call keeps every stock at zero or more; so does every sequence of calls.\<close>

lemma createOrder_stock:
  "stockNonNegative d \<Longrightarrow> stockNonNegative (store (createOrder d e u b))"
proof (cases rule: createOrder_cases [of d e u b])
  case (aborted err s)
  assume "stockNonNegative d"
  with aborted show ?thesis by simp
next
  case (committed s' tot first rest)
  assume "stockNonNegative d"
  with createOrderTx_Inr(6) [OF committed(1)] committed(2) show ?thesis by simp
qed

lemma placeOrders_stock:
  "stockNonNegative d \<Longrightarrow> stockNonNegative (placeOrders d calls)"
proof (induction calls arbitrary: d)
  case Nil
  then show ?case by simp
next
  case (Cons c calls)
  obtain e u b where c: "c = (e, u, b)" by (cases c)
  from Cons.prems have "stockNonNegative (store (createOrder d e u b))"
    by (rule createOrder_stock)
  then have "stockNonNegative (placeOrders (store (createOrder d e u b)) calls)"
    by (rule Cons.IH)
  with c show ?case by simp
qed

section \<open>Claims\<close>

text \<open>
  C1, as the specification states it: a status update succeeds only along
  pending, processing, shipped, delivered (or to cancelled from pending or processing).
  The handler has no transition table. Here an order that is pending is set to shipped
  directly, and an order that is delivered is set to cancelled: both updates are answered
  with 200 and stored.
\<close>

theorem updateOrderStatus_no_table_counterexample:
  "response (updateOrderStatus placedDb laterEnv admin 100 ''shipped'')
     = Http 200 (OrderDoc 100 (scenarioOrder\<lparr>status := ''shipped''\<rparr>))
   \<and> map_option status
        (orders (store (updateOrderStatus placedDb laterEnv admin 100 ''shipped'')) 100)
     = Some ''shipped''
   \<and> map_option status
        (orders (store (updateOrderStatus
           (placedDb\<lparr>orders := [100 \<mapsto> scenarioOrder\<lparr>status := ''delivered''\<rparr>]\<rparr>)
           laterEnv admin 100 ''cancelled'')) 100)
     = Some ''cancelled''"
  by (simp add: updateOrderStatus_def Let_def validStatuses_def scenario_defs)

text \<open>
  C1, amended: for an order that exists and a requested status that is one of the five
  valid statuses, the update stores the requested status whatever the current status is;
  a status outside the five is answered with 400 and an unknown order id with 404, both
  leaving the database as it was.
\<close>

theorem updateOrderStatus_sets_any_valid_status:
  "(s \<in> set validStatuses \<and> orders d i = Some ord \<longrightarrow>
      orders (store (updateOrderStatus d e u i s)) i = Some (ord\<lparr>status := s\<rparr>))
   \<and> (s \<notin> set validStatuses \<longrightarrow>
      store (updateOrderStatus d e u i s) = d
      \<and> response (updateOrderStatus d e u i s) = Http 400 (Message ''Invalid status''))
   \<and> (s \<in> set validStatuses \<and> orders d i = None \<longrightarrow>
      store (updateOrderStatus d e u i s) = d
      \<and> response (updateOrderStatus d e u i s) = Http 404 (Message ''Order not found''))"
  by (simp add: updateOrderStatus_store updateOrderStatus_rejected updateOrderStatus_missing)

theorem updateOrderStatus_sets_any_valid_status_witness:
  "orders (store (updateOrderStatus placedDb laterEnv admin 100 ''delivered'')) 100
     = Some (scenarioOrder\<lparr>status := ''delivered''\<rparr>)
   \<and> store (updateOrderStatus placedDb laterEnv admin 100 ''returned'') = placedDb
   \<and> response (updateOrderStatus placedDb laterEnv admin 100 ''returned'')
     = Http 400 (Message ''Invalid status'')
   \<and> store (updateOrderStatus placedDb laterEnv admin 55 ''shipped'') = placedDb
   \<and> response (updateOrderStatus placedDb laterEnv admin 55 ''shipped'')
     = Http 404 (Message ''Order not found'')"
proof -
  have valid: "''delivered'' \<in> set validStatuses" "''shipped'' \<in> set validStatuses"
    and invalid: "''returned'' \<notin> set validStatuses"
    by (simp_all add: validStatuses_def)
  have stored: "orders placedDb 100 = Some scenarioOrder" and missing: "orders placedDb 55 = None"
    by (simp_all add: placedDb_def)
  from updateOrderStatus_sets_any_valid_status
         [of "''delivered''" placedDb 100 scenarioOrder laterEnv admin]
       updateOrderStatus_sets_any_valid_status
         [of "''returned''" placedDb 100 scenarioOrder laterEnv admin]
       updateOrderStatus_sets_any_valid_status
         [of "''shipped''" placedDb 55 scenarioOrder laterEnv admin]
       valid invalid stored missing
  show ?thesis by blast
qed

text \<open>
  C2: a call of createOrder that does not answer 201 answers 400 with the error, and the
  database after it is the database before it: every product has the stock it had, also
  the products that the aborted session had already decremented.
\<close>

theorem createOrder_failure_restores_stock:
  "response (createOrder d e u b) \<noteq> Http 201 Undefined \<Longrightarrow>
     (\<exists>err. response (createOrder d e u b) = Http 400 (Failure err))
     \<and> products (store (createOrder d e u b)) = products d
     \<and> store (createOrder d e u b) = d"
  by (cases rule: createOrder_cases [of d e u b]) simp_all

theorem createOrder_failure_restores_stock_witness:
  "response (createOrder scenarioDb scenarioEnv customer cartTwoLines) \<noteq> Http 201 Undefined
   \<and> map_option stock (products (snd (projl
        (createOrderTx scenarioDb scenarioEnv customer cartTwoLines))) 1) = Some 3
   \<and> map_option stock
        (products (store (createOrder scenarioDb scenarioEnv customer cartTwoLines)) 1) = Some 5
   \<and> store (createOrder scenarioDb scenarioEnv customer cartTwoLines) = scenarioDb"
proof -
  have failed: "response (createOrder scenarioDb scenarioEnv customer cartTwoLines)
                  \<noteq> Http 201 Undefined"
    by (simp add: createOrder_def scenario_partial)
  have before: "map_option stock (products scenarioDb 1) = Some 5"
    by (simp add: scenarioDb_def)
  from createOrder_failure_restores_stock [OF failed] failed before
  show ?thesis by (simp add: scenario_partial)
qed

text \<open>
  C4, as the specification states it: a cart with a line of zero or negative quantity is
  rejected before any reservation. The handler does not look at the quantity before the
  loop. Here the line asks for -1 unit: the loop reserves it in the session (stock 6) and
  the error is thrown afterwards, by the validation of the order document.
\<close>

theorem createOrder_quantity_checked_late_counterexample:
  "createOrderTx scenarioDb scenarioEnv customer (cart (- 1)) =
     Inl (ValidationError,
          scenarioDb\<lparr>products :=
            [1 \<mapsto> \<lparr>name = ''P1'', price = 10, stock = 6, sellerId = 7, isActive = True\<rparr>]\<rparr>)"
  by (simp add: scenario_defs handler_defs)

text \<open>
  C4, amended: a call with no line item is rejected before any product is read or written;
  a call with a line item of quantity below 1 is rejected (answer 400) and the database
  after the call is the database before it, so no stock has changed.
\<close>

theorem createOrder_rejects_invalid_input:
  "(itemsOf b = [] \<longrightarrow>
      createOrderTx d e u b = Inl (EmptyOrder, d)
      \<and> createOrder d e u b
          = \<lparr>store = d, emitted = [], response = Http 400 (Failure EmptyOrder)\<rparr>)
   \<and> ((\<exists>it \<in> set (itemsOf b). quantity it < 1) \<longrightarrow>
      (\<exists>err. response (createOrder d e u b) = Http 400 (Failure err))
      \<and> store (createOrder d e u b) = d)"
proof (intro conjI impI)
  assume "itemsOf b = []"
  then show "createOrderTx d e u b = Inl (EmptyOrder, d)"
    and "createOrder d e u b
           = \<lparr>store = d, emitted = [], response = Http 400 (Failure EmptyOrder)\<rparr>"
    by (simp_all add: createOrder_def createOrderTx_def)
next
  assume "\<exists>it \<in> set (itemsOf b). quantity it < 1"
  then obtain it where it: "it \<in> set (itemsOf b)" "quantity it < 1" by blast
  have aborted: "\<exists>err. response (createOrder d e u b) = Http 400 (Failure err)
                  \<and> store (createOrder d e u b) = d"
  proof (cases rule: createOrder_cases [of d e u b])
    case (aborted err s)
    then show ?thesis by simp
  next
    case (committed s' tot first rest)
    from createOrderTx_Inr(3) [OF committed(1)]
    have "list_all validOrderItem (first # rest)"
      by (simp add: validOrder_def newOrder_def)
    with createOrderTx_Inr(2) [OF committed(1)] have "1 \<le> quantity it"
      using it(1) by (rule captured_valid_quantity)
    with it(2) show ?thesis by simp
  qed
  then show "\<exists>err. response (createOrder d e u b) = Http 400 (Failure err)"
    and "store (createOrder d e u b) = d"
    by auto
qed

theorem createOrder_rejects_invalid_input_witness:
  "createOrderTx scenarioDb scenarioEnv customer ((cart 2)\<lparr>reqItems := Some []\<rparr>)
     = Inl (EmptyOrder, scenarioDb)
   \<and> response (createOrder scenarioDb scenarioEnv customer (cart 0))
     = Http 400 (Failure ValidationError)
   \<and> store (createOrder scenarioDb scenarioEnv customer (cart 0)) = scenarioDb"
proof -
  have empty: "itemsOf ((cart 2)\<lparr>reqItems := Some []\<rparr>) = []"
    by (simp add: itemsOf_def)
  have zero: "\<exists>it \<in> set (itemsOf (cart 0)). quantity it < 1"
    by (simp add: itemsOf_def cart_def)
  have answer: "response (createOrder scenarioDb scenarioEnv customer (cart 0))
                  = Http 400 (Failure ValidationError)"
    by (simp add: scenario_defs handler_defs)
  from createOrder_rejects_invalid_input
         [of "(cart 2)\<lparr>reqItems := Some []\<rparr>" scenarioDb scenarioEnv customer]
       createOrder_rejects_invalid_input [of "cart 0" scenarioDb scenarioEnv customer]
       empty zero answer
  show ?thesis by blast
qed

text \<open>
  C6: from a database in which every stock is at least zero, every sequence of createOrder
  calls leaves every stock at least zero after each of its calls.
\<close>

theorem placeOrders_stock_never_negative:
  "stockNonNegative d \<Longrightarrow> stockNonNegative (placeOrders d (take n calls))"
  by (rule placeOrders_stock)

theorem placeOrders_stock_never_negative_witness:
  "stockNonNegative scenarioDb
   \<and> stockNonNegative (placeOrders scenarioDb
        (take 2 [(scenarioEnv, customer, cart 2), (laterEnv, customer, cart 3),
                 (laterEnv, customer, cart 1)]))
   \<and> map_option stock (products (placeOrders scenarioDb
        (take 2 [(scenarioEnv, customer, cart 2), (laterEnv, customer, cart 3),
                 (laterEnv, customer, cart 1)])) 1) = Some 0"
proof -
  have start: "stockNonNegative scenarioDb"
    by (simp add: stockNonNegative_def scenarioDb_def)
  have final: "map_option stock (products (placeOrders scenarioDb
        (take 2 [(scenarioEnv, customer, cart 2), (laterEnv, customer, cart 3),
                 (laterEnv, customer, cart 1)])) 1) = Some 0"
    by (simp add: scenario_placed) (simp add: scenario_defs handler_defs)
  from placeOrders_stock_never_negative [OF start] start final
  show ?thesis by blast
qed

text \<open>
  C9 on the code: the cart of the first scenario is sent without a payment method. The
  call answers 201 and the order it stores is pending with the payment method
  \<^verbatim>\<open>"cod"\<close>, the schema's default, and the payment status \<^verbatim>\<open>"paid"\<close>: line 60
  compares the request's \<^verbatim>\<open>undefined\<close> with \<^verbatim>\<open>"cod"\<close>. The same cart sent with
  the payment method \<^verbatim>\<open>"cod"\<close> is stored with the payment status \<^verbatim>\<open>"pending"\<close>.
\<close>

theorem createOrder_default_method_is_paid:
  "response (createOrder scenarioDb scenarioEnv customer cartNoMethod) = Http 201 Undefined
   \<and> map_option status
        (orders (store (createOrder scenarioDb scenarioEnv customer cartNoMethod)) 100)
     = Some ''pending''
   \<and> map_option paymentMethod
        (orders (store (createOrder scenarioDb scenarioEnv customer cartNoMethod)) 100)
     = Some ''cod''
   \<and> map_option paymentStatus
        (orders (store (createOrder scenarioDb scenarioEnv customer cartNoMethod)) 100)
     = Some ''paid''
   \<and> map_option paymentMethod
        (orders (store (createOrder scenarioDb scenarioEnv customer (cart 2))) 100)
     = Some ''cod''
   \<and> map_option paymentStatus
        (orders (store (createOrder scenarioDb scenarioEnv customer (cart 2))) 100)
     = Some ''pending''"
  by (simp add: scenario_defs handler_defs)




text \<open>
  C7 on the code: the order stored at time 1000 is set to processing by an admin at time
  2000. The update is answered with 200 and the status is stored, and \<^verbatim>\<open>updatedAt\<close>
  is still 1000.
\<close>

theorem updateOrderStatus_keeps_updatedAt:
  "response (updateOrderStatus placedDb laterEnv admin 100 ''processing'')
     = Http 200 (OrderDoc 100 (scenarioOrder\<lparr>status := ''processing''\<rparr>))
   \<and> map_option status
        (orders (store (updateOrderStatus placedDb laterEnv admin 100 ''processing'')) 100)
     = Some ''processing''
   \<and> map_option updatedAt
        (orders (store (updateOrderStatus placedDb laterEnv admin 100 ''processing'')) 100)
     = Some 1000
   \<and> now laterEnv = 2000"
  by (simp add: updateOrderStatus_def Let_def validStatuses_def scenario_defs)

text \<open>
  C8 on the code: product 1 belongs to seller 7. The order of the first scenario is
  announced in the room named from \<^verbatim>\<open>undefined\<close>, not in the room of seller 7, and
  the body of the 201 answer is \<^verbatim>\<open>undefined\<close>, not the order.
\<close>

theorem createOrder_new_order_room:
  "map_option sellerId (products scenarioDb 1) = Some 7
   \<and> emitted (createOrder scenarioDb scenarioEnv customer (cart 2))
     = [(SellerRoom None, NewOrder 100 20 ''Ann'')]
   \<and> SellerRoom None \<noteq> SellerRoom (Some 7)
   \<and> response (createOrder scenarioDb scenarioEnv customer (cart 2)) = Http 201 Undefined"
  by (simp add: scenario_placed) (simp add: scenarioDb_def)

end
